theory Spec2Isabelle
  imports Main "HOL-Library.Word"
begin

section \<open>Heap spaces of the garbage collector (space.h)\<close>

text \<open>
  The header \<^verbatim>\<open>space.h\<close> declares the abstract class \<^verbatim>\<open>Space\<close> and its two
  subclasses \<^verbatim>\<open>AllocSpace\<close> and \<^verbatim>\<open>ImageSpace\<close>. Each class becomes a record; the
  subclasses extend the record of the base class, so every function defined on the
  base record scheme applies to both kinds of space. A member function
  \<^verbatim>\<open>T::f\<close> that mutates \<^verbatim>\<open>this\<close> is a function from the record to the updated
  record; a \<^verbatim>\<open>const\<close> member function is a function from the record to its result.
  A data member \<^verbatim>\<open>x_\<close> of the source is the field \<open>m_x\<close> of the record.

  Addresses (\<^verbatim>\<open>byte*\<close>) and sizes (\<^verbatim>\<open>size_t\<close>) are machine words of one width
  \<open>'w\<close>. The header does not fix the width (\<^verbatim>\<open>globals.h\<close> does), so it stays a
  type parameter. Pointer difference converted to \<^verbatim>\<open>size_t\<close> is subtraction of
  words, which wraps around.
\<close>

subsection \<open>Data model\<close>

datatype GcRetentionPolicy =
  GCRP_NEVER_COLLECT
| GCRP_ALWAYS_COLLECT
| GCRP_FULL_COLLECT

text \<open>
  Modelled from the spec: the class \<^verbatim>\<open>MemMap\<close> (\<^verbatim>\<open>mem_map.h\<close>) is not part of
  the sources at hand. The spec describes it as a contiguous reserved byte range with
  a fixed start and a current extent, queried for its begin, its end and its size;
  \<^verbatim>\<open>space.h\<close> calls \<^verbatim>\<open>Begin()\<close>, \<^verbatim>\<open>End()\<close> and \<^verbatim>\<open>Size()\<close> on it.
\<close>

record (overloaded) ('w::len) MemMap =
  map_begin :: "'w word"
  map_size :: "'w word"

definition MemMap_Begin :: "'w::len MemMap \<Rightarrow> 'w word" where
  "MemMap_Begin m = map_begin m"

definition MemMap_Size :: "'w::len MemMap \<Rightarrow> 'w word" where
  "MemMap_Size m = map_size m"

definition MemMap_End :: "'w::len MemMap \<Rightarrow> 'w word" where
  "MemMap_End m = map_begin m + map_size m"

text \<open>
  A \<^verbatim>\<open>SpaceBitmap*\<close> and the \<^verbatim>\<open>void*\<close> handle of the malloc space are object
  identities: two accessors return the same object exactly when they return the same
  pointer.
\<close>

type_synonym bitmap_ptr = nat
type_synonym mspace_ptr = nat

record (overloaded) ('w::len) Space =
  m_name :: string
  m_mem_map :: "'w MemMap"
  m_begin :: "'w word"
  m_end :: "'w word"
  m_gc_retention_policy :: GcRetentionPolicy

record (overloaded) ('w::len) AllocSpace = "'w Space" +
  m_live_bitmap :: bitmap_ptr
  m_mark_bitmap :: bitmap_ptr
  m_mspace :: mspace_ptr
  m_growth_limit :: "'w word"

record (overloaded) ('w::len) ImageSpace = "'w Space" +
  m_image_live_bitmap :: bitmap_ptr

subsection \<open>class Space\<close>

definition GetSpaceName :: "('w::len, 'z) Space_scheme \<Rightarrow> string" where
  "GetSpaceName s = m_name s"

definition Begin :: "('w::len, 'z) Space_scheme \<Rightarrow> 'w word" where
  "Begin s = m_begin s"

definition End :: "('w::len, 'z) Space_scheme \<Rightarrow> 'w word" where
  "End s = m_end s"

definition Contains :: "('w::len, 'z) Space_scheme \<Rightarrow> 'w word \<Rightarrow> bool" where
  "Contains s byte_ptr = (Begin s \<le> byte_ptr \<and> byte_ptr < End s)"

definition Size :: "('w::len, 'z) Space_scheme \<Rightarrow> 'w word" where
  "Size s = End s - Begin s"

definition Space_Capacity :: "('w::len, 'z) Space_scheme \<Rightarrow> 'w word" where
  "Space_Capacity s = MemMap_Size (m_mem_map s)"

definition Space_NonGrowthLimitCapacity :: "('w::len, 'z) Space_scheme \<Rightarrow> 'w word" where
  "Space_NonGrowthLimitCapacity s = Space_Capacity s"

definition GetGcRetentionPolicy :: "('w::len, 'z) Space_scheme \<Rightarrow> GcRetentionPolicy" where
  "GetGcRetentionPolicy s = m_gc_retention_policy s"

definition SetGcRetentionPolicy ::
  "GcRetentionPolicy \<Rightarrow> ('w::len, 'z) Space_scheme \<Rightarrow> ('w, 'z) Space_scheme" where
  "SetGcRetentionPolicy gc_retention_policy s =
     s\<lparr>m_gc_retention_policy := gc_retention_policy\<rparr>"

definition GetName :: "('w::len, 'z) Space_scheme \<Rightarrow> string" where
  "GetName s = m_name s"

subsection \<open>class AllocSpace\<close>

text \<open>
  The virtual member functions are named after the class that defines them:
  \<^verbatim>\<open>AllocSpace::Capacity\<close> is \<open>AllocSpace_Capacity\<close>, and so on.
\<close>

definition GetMspace :: "('w::len, 'z) AllocSpace_scheme \<Rightarrow> mspace_ptr" where
  "GetMspace s = m_mspace s"

definition AllocSpace_Capacity :: "('w::len, 'z) AllocSpace_scheme \<Rightarrow> 'w word" where
  "AllocSpace_Capacity s = m_growth_limit s"

definition AllocSpace_NonGrowthLimitCapacity ::
  "('w::len, 'z) AllocSpace_scheme \<Rightarrow> 'w word" where
  "AllocSpace_NonGrowthLimitCapacity s =
     MemMap_End (m_mem_map s) - MemMap_Begin (m_mem_map s)"

definition ClearGrowthLimit ::
  "('w::len, 'z) AllocSpace_scheme \<Rightarrow> ('w, 'z) AllocSpace_scheme" where
  "ClearGrowthLimit s = s\<lparr>m_growth_limit := AllocSpace_NonGrowthLimitCapacity s\<rparr>"

definition AllocSpace_IsAllocSpace :: "('w::len, 'z) AllocSpace_scheme \<Rightarrow> bool" where
  "AllocSpace_IsAllocSpace s = (m_gc_retention_policy s \<noteq> GCRP_NEVER_COLLECT)"

definition AllocSpace_IsImageSpace :: "('w::len, 'z) AllocSpace_scheme \<Rightarrow> bool" where
  "AllocSpace_IsImageSpace s = False"

definition AllocSpace_IsZygoteSpace :: "('w::len, 'z) AllocSpace_scheme \<Rightarrow> bool" where
  "AllocSpace_IsZygoteSpace s = (m_gc_retention_policy s = GCRP_FULL_COLLECT)"

definition AllocSpace_GetLiveBitmap :: "('w::len, 'z) AllocSpace_scheme \<Rightarrow> bitmap_ptr" where
  "AllocSpace_GetLiveBitmap s = m_live_bitmap s"

definition AllocSpace_GetMarkBitmap :: "('w::len, 'z) AllocSpace_scheme \<Rightarrow> bitmap_ptr" where
  "AllocSpace_GetMarkBitmap s = m_mark_bitmap s"

subsection \<open>class ImageSpace\<close>

definition GetImageFilename :: "('w::len, 'z) ImageSpace_scheme \<Rightarrow> string" where
  "GetImageFilename s = m_name s"

definition ImageSpace_IsAllocSpace :: "('w::len, 'z) ImageSpace_scheme \<Rightarrow> bool" where
  "ImageSpace_IsAllocSpace s = False"

definition ImageSpace_IsImageSpace :: "('w::len, 'z) ImageSpace_scheme \<Rightarrow> bool" where
  "ImageSpace_IsImageSpace s = True"

definition ImageSpace_IsZygoteSpace :: "('w::len, 'z) ImageSpace_scheme \<Rightarrow> bool" where
  "ImageSpace_IsZygoteSpace s = False"

definition ImageSpace_GetLiveBitmap :: "('w::len, 'z) ImageSpace_scheme \<Rightarrow> bitmap_ptr" where
  "ImageSpace_GetLiveBitmap s = m_image_live_bitmap s"

definition ImageSpace_GetMarkBitmap :: "('w::len, 'z) ImageSpace_scheme \<Rightarrow> bitmap_ptr" where
  "ImageSpace_GetMarkBitmap s = m_image_live_bitmap s"

subsection \<open>Member functions of AllocSpace that the header only declares\<close>

text \<open>
  The contents of a bitmap are the set of addresses marked in it; the store maps each
  bitmap object to its contents.
\<close>

type_synonym 'w bitmap_store = "bitmap_ptr \<Rightarrow> 'w word set"

text \<open>
  Modelled from the spec: the body of \<^verbatim>\<open>AllocSpace::SwapBitmaps\<close> is not part of
  the sources at hand (\<^verbatim>\<open>space.h\<close> declares it: "Swap the live and mark bitmaps
  of this space"). The spec: it exchanges which bitmap object is exposed as live and
  which as mark for this space, in constant time, and does not touch the contents of
  the bitmaps. The function takes the store of the contents along with the space and
  returns both.
\<close>

definition SwapBitmaps ::
  "'w bitmap_store \<times> ('w::len, 'z) AllocSpace_scheme \<Rightarrow>
   'w bitmap_store \<times> ('w, 'z) AllocSpace_scheme" where
  "SwapBitmaps hs =
     (case hs of (h, s) \<Rightarrow>
        let temp_live_bitmap = m_live_bitmap s;
            s1 = s\<lparr>m_live_bitmap := m_mark_bitmap s\<rparr>
        in (h, s1\<lparr>m_mark_bitmap := temp_live_bitmap\<rparr>))"

text \<open>
  Modelled from the spec: the body of \<^verbatim>\<open>AllocSpace::CreateZygoteSpace\<close> is not part
  of the sources at hand (\<^verbatim>\<open>space.h\<close> declares it: "Turn ourself into a zygote
  space and return a new alloc space which has our unused memory"). The spec: the
  calling space retains its range from begin to end as it is and its retention policy
  becomes FullCollectOnly; a new alloc space is constructed over the unused tail of
  the same reservation, which starts at the end of the calling space, with retention
  policy AlwaysCollect and a freshly initialized allocator; the new space begins and
  ends at the end of the calling space. The spec does not say which name, bitmaps,
  allocator handle and growth limit the new space gets, so they are arguments. The
  result is the calling space after the call, paired with the new space.
\<close>

definition CreateZygoteSpace ::
  "string \<Rightarrow> bitmap_ptr \<Rightarrow> bitmap_ptr \<Rightarrow> mspace_ptr \<Rightarrow> 'w word \<Rightarrow>
   'w::len AllocSpace \<Rightarrow> 'w AllocSpace \<times> 'w AllocSpace" where
  "CreateZygoteSpace new_name new_live new_mark new_mspace new_growth_limit s =
     (let tail = \<lparr>map_begin = End s, map_size = MemMap_End (m_mem_map s) - End s\<rparr>;
          alloc_space =
            \<lparr>m_name = new_name, m_mem_map = tail, m_begin = End s, m_end = End s,
             m_gc_retention_policy = GCRP_ALWAYS_COLLECT,
             m_live_bitmap = new_live, m_mark_bitmap = new_mark,
             m_mspace = new_mspace, m_growth_limit = new_growth_limit\<rparr>
      in (SetGcRetentionPolicy GCRP_FULL_COLLECT s, alloc_space))"

subsection \<open>Two spaces of a 32-bit heap\<close>

text \<open>
  An alloc space that has filled two pages of a reservation of sixteen pages, with a
  growth limit of eight pages, and an image space of one page.
\<close>

definition heap_space :: "32 AllocSpace" where
  "heap_space =
     \<lparr>m_name = ''alloc space'',
      m_mem_map = \<lparr>map_begin = 0x1000, map_size = 0x10000\<rparr>,
      m_begin = 0x1000, m_end = 0x3000,
      m_gc_retention_policy = GCRP_ALWAYS_COLLECT,
      m_live_bitmap = 1, m_mark_bitmap = 2, m_mspace = 3, m_growth_limit = 0x8000\<rparr>"

definition boot_image :: "32 ImageSpace" where
  "boot_image =
     \<lparr>m_name = ''boot.art'',
      m_mem_map = \<lparr>map_begin = 0x60000000, map_size = 0x1000\<rparr>,
      m_begin = 0x60000000, m_end = 0x60001000,
      m_gc_retention_policy = GCRP_NEVER_COLLECT,
      m_image_live_bitmap = 7\<rparr>"

section \<open>Properties\<close>

subsection \<open>The growth limit\<close>

lemma MemMap_extent: "MemMap_End m - MemMap_Begin m = MemMap_Size m"
  by (simp add: MemMap_End_def MemMap_Begin_def MemMap_Size_def)

text \<open>
  The reservation of an alloc space is the whole of its memory map, whatever the growth
  limit is, and \<^verbatim>\<open>ClearGrowthLimit\<close> puts the capacity within it.
\<close>

lemma AllocSpace_NonGrowthLimitCapacity_Size:
  "AllocSpace_NonGrowthLimitCapacity s = MemMap_Size (m_mem_map s)"
  by (simp add: AllocSpace_NonGrowthLimitCapacity_def MemMap_extent)

lemma ClearGrowthLimit_within_reservation:
  "AllocSpace_Capacity (ClearGrowthLimit s) \<le>
     AllocSpace_NonGrowthLimitCapacity (ClearGrowthLimit s)"
  by (simp add: ClearGrowthLimit_def AllocSpace_Capacity_def
      AllocSpace_NonGrowthLimitCapacity_def)

text \<open>
  C3. After one call of \<^verbatim>\<open>ClearGrowthLimit\<close> the capacity of an alloc space is the
  size of its whole reservation, \<^verbatim>\<open>Capacity() == NonGrowthLimitCapacity()\<close>, and a
  second call leaves the state of the space as the first call left it.
\<close>

theorem ClearGrowthLimit_idempotent:
  "AllocSpace_Capacity (ClearGrowthLimit s) =
     AllocSpace_NonGrowthLimitCapacity (ClearGrowthLimit s) \<and>
   ClearGrowthLimit (ClearGrowthLimit s) = ClearGrowthLimit s"
  by (simp add: ClearGrowthLimit_def AllocSpace_Capacity_def
      AllocSpace_NonGrowthLimitCapacity_def)

text \<open>
  C10. \<^verbatim>\<open>ClearGrowthLimit\<close> writes the growth limit and nothing else: the begin and
  the end of the space, its size, the size of its reservation, its name, its retention
  policy and the live and mark bitmap objects are what they were before the call.
  Putting the old growth limit back gives the state before the call.
\<close>

theorem ClearGrowthLimit_frame:
  "Begin (ClearGrowthLimit s) = Begin s \<and>
   End (ClearGrowthLimit s) = End s \<and>
   Size (ClearGrowthLimit s) = Size s \<and>
   AllocSpace_NonGrowthLimitCapacity (ClearGrowthLimit s) =
     AllocSpace_NonGrowthLimitCapacity s \<and>
   GetSpaceName (ClearGrowthLimit s) = GetSpaceName s \<and>
   GetName (ClearGrowthLimit s) = GetName s \<and>
   GetGcRetentionPolicy (ClearGrowthLimit s) = GetGcRetentionPolicy s \<and>
   AllocSpace_GetLiveBitmap (ClearGrowthLimit s) = AllocSpace_GetLiveBitmap s \<and>
   AllocSpace_GetMarkBitmap (ClearGrowthLimit s) = AllocSpace_GetMarkBitmap s \<and>
   (ClearGrowthLimit s)\<lparr>m_growth_limit := m_growth_limit s\<rparr> = s"
  by (simp add: ClearGrowthLimit_def Begin_def End_def Size_def
      AllocSpace_NonGrowthLimitCapacity_def GetSpaceName_def GetName_def
      GetGcRetentionPolicy_def AllocSpace_GetLiveBitmap_def AllocSpace_GetMarkBitmap_def)

subsection \<open>Classification of spaces\<close>

text \<open>
  C5. After \<^verbatim>\<open>SetGcRetentionPolicy(p)\<close> on an alloc space, \<^verbatim>\<open>IsAllocSpace()\<close> is
  true exactly when \<open>p\<close> is not NeverCollect and \<^verbatim>\<open>IsZygoteSpace()\<close> is true exactly
  when \<open>p\<close> is FullCollectOnly. In every state both predicates are functions of the
  retention policy of the space alone.
\<close>

theorem AllocSpace_classification:
  "AllocSpace_IsAllocSpace (SetGcRetentionPolicy p s) = (p \<noteq> GCRP_NEVER_COLLECT) \<and>
   AllocSpace_IsZygoteSpace (SetGcRetentionPolicy p s) = (p = GCRP_FULL_COLLECT) \<and>
   GetGcRetentionPolicy (SetGcRetentionPolicy p s) = p \<and>
   AllocSpace_IsAllocSpace s = (GetGcRetentionPolicy s \<noteq> GCRP_NEVER_COLLECT) \<and>
   AllocSpace_IsZygoteSpace s = (GetGcRetentionPolicy s = GCRP_FULL_COLLECT)"
  by (simp add: AllocSpace_IsAllocSpace_def AllocSpace_IsZygoteSpace_def
      SetGcRetentionPolicy_def GetGcRetentionPolicy_def)

text \<open>
  C6. An image space, in every state, answers true to \<^verbatim>\<open>IsImageSpace()\<close> and false
  to \<^verbatim>\<open>IsAllocSpace()\<close> and \<^verbatim>\<open>IsZygoteSpace()\<close>, and its \<^verbatim>\<open>GetMarkBitmap()\<close>
  returns the same bitmap object as its \<^verbatim>\<open>GetLiveBitmap()\<close>.
\<close>

theorem ImageSpace_accessors:
  "ImageSpace_IsImageSpace s \<and>
   \<not> ImageSpace_IsAllocSpace s \<and>
   \<not> ImageSpace_IsZygoteSpace s \<and>
   ImageSpace_GetMarkBitmap s = ImageSpace_GetLiveBitmap s"
  by (simp add: ImageSpace_IsImageSpace_def ImageSpace_IsAllocSpace_def
      ImageSpace_IsZygoteSpace_def ImageSpace_GetMarkBitmap_def ImageSpace_GetLiveBitmap_def)

subsection \<open>Address range and size\<close>

text \<open>
  C7. For a space of either kind and every address, \<^verbatim>\<open>Contains(addr)\<close> holds exactly
  when \<^verbatim>\<open>Begin() <= addr < End()\<close>. It is false at \<^verbatim>\<open>End()\<close>, and true at
  \<^verbatim>\<open>Begin()\<close> whenever \<^verbatim>\<open>Begin() != End()\<close>, in a space whose begin is not above
  its end (the invariant of the data model, \<open>begin \<le> end\<close>). The space is any
  extension of the base record, so the statement covers alloc spaces and image spaces.
\<close>

theorem Contains_iff_in_range:
  "(Contains s addr \<longleftrightarrow> Begin s \<le> addr \<and> addr < End s) \<and>
   \<not> Contains s (End s) \<and>
   (Begin s \<le> End s \<longrightarrow> Begin s \<noteq> End s \<longrightarrow> Contains s (Begin s))"
  by (auto simp add: Contains_def)

theorem Contains_iff_in_range_witness:
  "Begin heap_space \<le> End heap_space \<and> Begin heap_space \<noteq> End heap_space \<and>
   Contains heap_space (Begin heap_space) \<and> \<not> Contains heap_space (End heap_space) \<and>
   Begin boot_image \<le> End boot_image \<and> Begin boot_image \<noteq> End boot_image \<and>
   Contains boot_image (Begin boot_image) \<and> \<not> Contains boot_image (End boot_image)"
  using Contains_iff_in_range [of heap_space "Begin heap_space"]
    Contains_iff_in_range [of boot_image "Begin boot_image"]
  by (simp add: heap_space_def boot_image_def Begin_def End_def)

text \<open>
  C9. \<^verbatim>\<open>Size()\<close> is \<^verbatim>\<open>End() - Begin()\<close> in every state of a space, and stays so
  when the end pointer is moved to any address \<open>e\<close>, as allocation and the zygote
  split do: the size is then \<open>e\<close> minus the unchanged begin.
\<close>

theorem Size_is_End_minus_Begin:
  "Size s = End s - Begin s \<and>
   Size (s\<lparr>m_end := e\<rparr>) = End (s\<lparr>m_end := e\<rparr>) - Begin (s\<lparr>m_end := e\<rparr>) \<and>
   End (s\<lparr>m_end := e\<rparr>) = e \<and>
   Begin (s\<lparr>m_end := e\<rparr>) = Begin s"
  by (simp add: Size_def End_def Begin_def)

text \<open>
  The difference is the one of machine words. Where the begin is not above the end it
  is the number of bytes between them.
\<close>

lemma Size_unat:
  assumes "Begin s \<le> End s"
  shows "unat (Size s) = unat (End s) - unat (Begin s)"
  using assms by (simp add: Size_def unat_sub)

subsection \<open>Swapping the bitmaps\<close>

text \<open>
  C8. \<^verbatim>\<open>SwapBitmaps\<close> applied twice gives back the bitmap objects that
  \<^verbatim>\<open>GetLiveBitmap()\<close> and \<^verbatim>\<open>GetMarkBitmap()\<close> returned at first, with the whole
  state of the space. One application exchanges the two objects, leaves every other
  field of the space as it was, and leaves the contents of every bitmap as they were.
\<close>

theorem SwapBitmaps_round_trip:
  "AllocSpace_GetLiveBitmap (snd (SwapBitmaps (SwapBitmaps (h, s)))) =
     AllocSpace_GetLiveBitmap s \<and>
   AllocSpace_GetMarkBitmap (snd (SwapBitmaps (SwapBitmaps (h, s)))) =
     AllocSpace_GetMarkBitmap s \<and>
   SwapBitmaps (SwapBitmaps (h, s)) = (h, s) \<and>
   AllocSpace_GetLiveBitmap (snd (SwapBitmaps (h, s))) = AllocSpace_GetMarkBitmap s \<and>
   AllocSpace_GetMarkBitmap (snd (SwapBitmaps (h, s))) = AllocSpace_GetLiveBitmap s \<and>
   (snd (SwapBitmaps (h, s)))
     \<lparr>m_live_bitmap := m_live_bitmap s, m_mark_bitmap := m_mark_bitmap s\<rparr> = s \<and>
   fst (SwapBitmaps (h, s)) = h"
  by (simp add: SwapBitmaps_def AllocSpace_GetLiveBitmap_def AllocSpace_GetMarkBitmap_def)

subsection \<open>The zygote split\<close>

text \<open>
  C1. Let an alloc space begin at \<open>B\<close>, where its reservation begins, end at \<open>E\<close>,
  and have a reservation of \<open>C\<close> bytes. After \<^verbatim>\<open>CreateZygoteSpace\<close> the space still
  begins at \<open>B\<close> and ends at \<open>E\<close> and its retention policy is FullCollectOnly; the new
  space begins and ends at \<open>E\<close>, its \<^verbatim>\<open>NonGrowthLimitCapacity()\<close> is
  \<open>C - (E - B)\<close> and its retention policy is AlwaysCollect. The two ranges are
  disjoint (no address is contained in both, and every address of the old space lies
  below the begin of the new one) and contiguous (the new space begins where the old
  one ends).
\<close>

theorem CreateZygoteSpace_split:
  assumes "m_begin s = MemMap_Begin (m_mem_map s)"
    and "CreateZygoteSpace nm lb mb ms gl s = (zygote, alloc_space)"
  shows "Begin zygote = Begin s \<and> End zygote = End s \<and>
    GetGcRetentionPolicy zygote = GCRP_FULL_COLLECT \<and>
    Begin alloc_space = End s \<and> End alloc_space = End s \<and>
    AllocSpace_NonGrowthLimitCapacity alloc_space =
      AllocSpace_NonGrowthLimitCapacity s - (End s - Begin s) \<and>
    GetGcRetentionPolicy alloc_space = GCRP_ALWAYS_COLLECT \<and>
    (\<forall>a. \<not> (Contains zygote a \<and> Contains alloc_space a)) \<and>
    (\<forall>a. Contains zygote a \<longrightarrow> a < Begin alloc_space) \<and>
    End zygote = Begin alloc_space"
proof -
  have z: "zygote = SetGcRetentionPolicy GCRP_FULL_COLLECT s"
    using assms(2) by (simp add: CreateZygoteSpace_def Let_def)
  have n: "m_begin alloc_space = End s" "m_end alloc_space = End s"
    "m_gc_retention_policy alloc_space = GCRP_ALWAYS_COLLECT"
    "m_mem_map alloc_space =
       \<lparr>map_begin = End s, map_size = MemMap_End (m_mem_map s) - End s\<rparr>"
    using assms(2) by (auto simp add: CreateZygoteSpace_def Let_def)
  have range: "Begin zygote = Begin s" "End zygote = End s"
    "GetGcRetentionPolicy zygote = GCRP_FULL_COLLECT"
    by (simp_all add: z SetGcRetentionPolicy_def Begin_def End_def GetGcRetentionPolicy_def)
  have new_range: "Begin alloc_space = End s" "End alloc_space = End s"
    "GetGcRetentionPolicy alloc_space = GCRP_ALWAYS_COLLECT"
    by (simp_all add: n Begin_def End_def GetGcRetentionPolicy_def)
  have cap: "AllocSpace_NonGrowthLimitCapacity alloc_space =
      AllocSpace_NonGrowthLimitCapacity s - (End s - Begin s)"
    using assms(1)
    by (simp add: AllocSpace_NonGrowthLimitCapacity_def n MemMap_End_def MemMap_Begin_def
        Begin_def)
  have below: "a < Begin alloc_space" if "Contains zygote a" for a
    using that by (simp add: Contains_def range new_range)
  have disjoint: "\<not> (Contains zygote a \<and> Contains alloc_space a)" for a
    by (auto simp add: Contains_def new_range)
  from range new_range cap below disjoint show ?thesis
    by simp
qed

theorem CreateZygoteSpace_split_witness:
  "m_begin heap_space = MemMap_Begin (m_mem_map heap_space) \<and>
   Begin (fst (CreateZygoteSpace ''alloc space'' 4 5 6 0x6000 heap_space)) = 0x1000 \<and>
   End (fst (CreateZygoteSpace ''alloc space'' 4 5 6 0x6000 heap_space)) = 0x3000 \<and>
   Begin (snd (CreateZygoteSpace ''alloc space'' 4 5 6 0x6000 heap_space)) = 0x3000 \<and>
   End (snd (CreateZygoteSpace ''alloc space'' 4 5 6 0x6000 heap_space)) = 0x3000 \<and>
   AllocSpace_NonGrowthLimitCapacity
     (snd (CreateZygoteSpace ''alloc space'' 4 5 6 0x6000 heap_space)) = 0xE000"
proof -
  have h: "m_begin heap_space = MemMap_Begin (m_mem_map heap_space)"
    by (simp add: heap_space_def MemMap_Begin_def)
  have c: "AllocSpace_NonGrowthLimitCapacity heap_space = 0x10000"
    "Begin heap_space = 0x1000" "End heap_space = 0x3000"
    by (simp_all add: heap_space_def AllocSpace_NonGrowthLimitCapacity_def
        MemMap_End_def MemMap_Begin_def Begin_def End_def)
  from CreateZygoteSpace_split [OF h surjective_pairing] h c show ?thesis
    by simp
qed

text \<open>
  The capacity of the new space is computed on machine words. Where the filled part of
  the old space fits its reservation, it is the number of bytes of the reservation
  that the old space has not filled.
\<close>

lemma CreateZygoteSpace_tail_unat:
  assumes "m_begin s = MemMap_Begin (m_mem_map s)"
    and "Size s \<le> AllocSpace_NonGrowthLimitCapacity s"
  shows "unat (AllocSpace_NonGrowthLimitCapacity
           (snd (CreateZygoteSpace nm lb mb ms gl s))) =
         unat (AllocSpace_NonGrowthLimitCapacity s) - unat (Size s)"
proof -
  have "AllocSpace_NonGrowthLimitCapacity (snd (CreateZygoteSpace nm lb mb ms gl s)) =
      AllocSpace_NonGrowthLimitCapacity s - Size s"
    using assms(1)
    by (simp add: CreateZygoteSpace_def Let_def AllocSpace_NonGrowthLimitCapacity_def
        MemMap_End_def MemMap_Begin_def Size_def Begin_def End_def)
  with assms(2) show ?thesis
    by (simp add: unat_sub)
qed

end
